theory Spec2Isabelle
  imports Complex_Main
begin

section \<open>Data model of the recipe builder\<close>

text \<open>
  The front end is JavaScript. Its numbers are modelled as \<^typ>\<open>real\<close>: the arithmetic of
  the aggregation is the exact arithmetic the formulas of the specification are written in.
  The rounding of IEEE doubles is modelled separately, in the section on binary64 arithmetic,
  for the one property that depends on it. A value that is a number or \<open>null\<close> is a
  \<^typ>\<open>real option\<close>, with \<open>None\<close> for \<open>null\<close>.

  An ingredient's \<open>nutrition\<close> object maps nutrient keys to numbers; a key that is missing,
  \<open>undefined\<close> or \<open>null\<close> (the three cases the test \<open>!= null\<close> rejects) is
  \<open>None\<close>.
\<close>

datatype confidence = High | Medium | Low

record ingredient =
  ing_id :: nat
  description :: string
  quantity :: real
  unit :: string
  weight_g :: "real option"
  confidence :: "confidence option"
  conversionNote :: "string option"
  nutrition :: "string \<rightharpoonup> real"

text \<open>\<open>ToNumber\<close> on a number or \<open>null\<close>: in \<open>sum + ing.weight_g\<close> and
  \<open>ing.weight_g / 100\<close> a \<open>null\<close> weight counts as 0.\<close>

definition to_number :: "real option \<Rightarrow> real" where
  "to_number w = (case w of None \<Rightarrow> 0 | Some x \<Rightarrow> x)"

section \<open>\<open>combineIngredients\<close> (api/client.js)\<close>

text \<open>The keys of the object literal \<open>combined\<close>, in the order \<open>Object.keys\<close> lists them.\<close>

definition nutrient_keys :: "string list" where
  "nutrient_keys =
     [''calories'', ''total_fat_g'', ''saturated_fat_g'', ''trans_fat_g'', ''cholesterol_mg'',
      ''sodium_mg'', ''total_carbohydrate_g'', ''dietary_fiber_g'', ''total_sugars_g'',
      ''added_sugars_g'', ''protein_g'', ''vitamin_d_mcg'', ''calcium_mg'', ''iron_mg'',
      ''potassium_mg'']"

text \<open>The body of the outer loop: one ingredient is added into every key of \<open>combined\<close>
  for which its nutrition has a value; the other keys keep their value.\<close>

definition add_weighted :: "ingredient \<Rightarrow> (string \<times> real) list \<Rightarrow> (string \<times> real) list" where
  "add_weighted ing combined =
     (let factor = to_number (weight_g ing) / 100 in
      map (\<lambda>(key, v). (key, case nutrition ing key of
                                 Some x \<Rightarrow> v + x * factor
                               | None \<Rightarrow> v)) combined)"

definition combineIngredients :: "ingredient list \<Rightarrow> (string \<times> real) list option" where
  "combineIngredients ingredients =
     (let totalWeight = foldl (\<lambda>sum ing. sum + to_number (weight_g ing)) 0 ingredients in
      if totalWeight = 0 then None
      else
        let combined = map (\<lambda>key. (key, 0)) nutrient_keys;
            summed = fold add_weighted ingredients combined;
            per100gFactor = 100 / totalWeight
        in Some (map (\<lambda>(key, v). (key, v * per100gFactor)) summed))"

subsection \<open>The formula of the specification\<close>

text \<open>
  The specification states the aggregate as a formula: \<open>total_mass\<close> is the sum of the gram
  weights, each ingredient contributes \<open>grams / 100 * profile[k]\<close>, a nutrient absent on an
  ingredient contributes 0, and the sum is rescaled by \<open>100 / total_mass\<close>. These
  definitions follow the specification's words; the theorems below compare them with the iterations of
  \<open>combineIngredients\<close>.
\<close>

definition total_mass :: "ingredient list \<Rightarrow> real" where
  "total_mass ings = (\<Sum>ing\<leftarrow>ings. to_number (weight_g ing))"

definition contribution :: "ingredient \<Rightarrow> string \<Rightarrow> real" where
  "contribution ing k =
     (case nutrition ing k of
        Some x \<Rightarrow> to_number (weight_g ing) / 100 * x
      | None \<Rightarrow> 0)"

definition spec_combined :: "ingredient list \<Rightarrow> string \<Rightarrow> real" where
  "spec_combined ings k = (\<Sum>ing\<leftarrow>ings. contribution ing k) * (100 / total_mass ings)"

text \<open>The ingredients that supply a value for key \<open>k\<close>.\<close>

definition suppliers :: "string \<Rightarrow> ingredient list \<Rightarrow> ingredient list" where
  "suppliers k ings = filter (\<lambda>ing. nutrition ing k \<noteq> None) ings"

text \<open>Every gram weight multiplied by \<open>c\<close>; a \<open>null\<close> weight stays \<open>null\<close>.\<close>

definition scale_weights :: "real \<Rightarrow> ingredient list \<Rightarrow> ingredient list" where
  "scale_weights c ings = map (\<lambda>ing. ing\<lparr>weight_g := map_option (\<lambda>w. w * c) (weight_g ing)\<rparr>) ings"

text \<open>The value the combined result holds for a key: \<open>None\<close> when the result is
  \<open>null\<close> or has no such key.\<close>

definition combined_value :: "(string \<times> real) list option \<Rightarrow> string \<Rightarrow> real option" where
  "combined_value result k = (case result of None \<Rightarrow> None | Some combined \<Rightarrow> map_of combined k)"

section \<open>Binary64 arithmetic\<close>

text \<open>
  The numbers of the front end are IEEE 754 binary64 values, and every \<open>+\<close>, \<open>*\<close> and
  \<open>/\<close> of \<open>combineIngredients\<close> rounds its exact result to the nearest value with a 53-bit
  significand, ties to even. \<open>fl\<close> is that rounding: for \<open>x \<noteq> 0\<close> with
  \<open>2^E \<le> |x| < 2^(E+1)\<close> the significand \<open>x / 2^(E-52)\<close> is rounded to an integer. The
  exponent is not bounded: overflow to \<open>Infinity\<close>, subnormal numbers, \<open>NaN\<close> and the sign
  of zero are not modelled, so \<open>fl\<close> is the rounding of binary64 wherever the value stays in
  the normal range (magnitudes from \<open>2^(-1022)\<close> up to, not including, \<open>2^1024\<close>).
\<close>

text \<open>The number of binary digits of a natural number.\<close>

fun bits :: "nat \<Rightarrow> nat" where
  "bits n = (if n = 0 then 0 else Suc (bits (n div 2)))"

definition pow2 :: "int \<Rightarrow> real" where
  "pow2 e = (if 0 \<le> e then 2 ^ nat e else 1 / 2 ^ nat (- e))"

text \<open>For \<open>x > 0\<close>, the integer \<open>E\<close> with \<open>2\<^sup>E \<le> x < 2\<^sup>E\<^sup>+\<^sup>1\<close>.\<close>

definition exponent :: "real \<Rightarrow> int" where
  "exponent x =
     (if 1 \<le> x then int (bits (nat \<lfloor>x\<rfloor>)) - 1
      else - int (bits (nat (\<lceil>1 / x\<rceil> - 1))))"

text \<open>Rounding to the nearest integer, a tie to the even one.\<close>

definition round_even :: "real \<Rightarrow> int" where
  "round_even m =
     (let f = \<lfloor>m\<rfloor> in
      if m - of_int f < 1 / 2 then f
      else if 1 / 2 < m - of_int f then f + 1
      else if even f then f else f + 1)"

definition fl :: "real \<Rightarrow> real" where
  "fl x =
     (if x = 0 then 0
      else let e = exponent \<bar>x\<bar> - 52 in of_int (round_even (x / pow2 e)) * pow2 e)"

definition fadd :: "real \<Rightarrow> real \<Rightarrow> real" where
  "fadd x y = fl (x + y)"

definition fmul :: "real \<Rightarrow> real \<Rightarrow> real" where
  "fmul x y = fl (x * y)"

definition fdiv :: "real \<Rightarrow> real \<Rightarrow> real" where
  "fdiv x y = fl (x / y)"

text \<open>
  \<open>combineIngredients\<close> once more, operation for operation, with each result rounded. The
  only divisors are the literal 100 and a total weight that is not 0.
\<close>

definition add_weighted_b64 :: "ingredient \<Rightarrow> (string \<times> real) list \<Rightarrow> (string \<times> real) list" where
  "add_weighted_b64 ing combined =
     (let factor = fdiv (to_number (weight_g ing)) 100 in
      map (\<lambda>(key, v). (key, case nutrition ing key of
                                 Some x \<Rightarrow> fadd v (fmul x factor)
                               | None \<Rightarrow> v)) combined)"

definition combineIngredients_b64 :: "ingredient list \<Rightarrow> (string \<times> real) list option" where
  "combineIngredients_b64 ingredients =
     (let totalWeight = foldl (\<lambda>sum ing. fadd sum (to_number (weight_g ing))) 0 ingredients in
      if totalWeight = 0 then None
      else
        let combined = map (\<lambda>key. (key, 0)) nutrient_keys;
            summed = fold add_weighted_b64 ingredients combined;
            per100gFactor = fdiv 100 totalWeight
        in Some (map (\<lambda>(key, v). (key, fmul v per100gFactor)) summed))"

section \<open>The recipe builder (components/RecipeBuilder)\<close>

subsection \<open>Derived values of the ingredient list\<close>

text \<open>\<open>ingredients.every((ing) => ing.weight_g != null && ing.weight_g > 0)\<close>\<close>

definition allConverted :: "ingredient list \<Rightarrow> bool" where
  "allConverted ingredients =
     list_all (\<lambda>ing. weight_g ing \<noteq> None \<and> to_number (weight_g ing) > 0) ingredients"

text \<open>The memo \<open>combinedNutrition\<close>: \<open>combineIngredients\<close> is called only behind the guard.\<close>

definition combinedNutrition :: "ingredient list \<Rightarrow> (string \<times> real) list option" where
  "combinedNutrition ingredients =
     (if length ingredients = 0 \<or> \<not> allConverted ingredients then None
      else combineIngredients ingredients)"

definition hasLowConfidence :: "ingredient list \<Rightarrow> bool" where
  "hasLowConfidence ingredients = list_ex (\<lambda>ing. confidence ing = Some Low) ingredients"

definition hasMediumConfidence :: "ingredient list \<Rightarrow> bool" where
  "hasMediumConfidence ingredients = list_ex (\<lambda>ing. confidence ing = Some Medium) ingredients"

definition hasWarnings :: "ingredient list \<Rightarrow> bool" where
  "hasWarnings ingredients = (hasLowConfidence ingredients \<or> hasMediumConfidence ingredients)"

definition hasIncompleteConversions :: "ingredient list \<Rightarrow> bool" where
  "hasIncompleteConversions ingredients = list_ex (\<lambda>ing. weight_g ing = None) ingredients"

text \<open>The confidence warning banner: the class it is rendered with, \<open>None\<close> when it is not
  rendered.\<close>

definition confidence_warning :: "ingredient list \<Rightarrow> string option" where
  "confidence_warning ingredients =
     (if hasWarnings ingredients \<and> \<not> hasIncompleteConversions ingredients
      then Some (if hasLowConfidence ingredients then ''warning-low'' else ''warning-medium'')
      else None)"

text \<open>
  The banner read as a tier: no banner stands for \<open>High\<close>, the class \<open>warning-low\<close> for
  \<open>Low\<close> and \<open>warning-medium\<close> for \<open>Medium\<close>. \<open>rank\<close> orders the tiers from worst to
  best, and \<open>tiers\<close> lists the tiers assigned to the ingredients.
\<close>

definition overall_confidence :: "ingredient list \<Rightarrow> confidence" where
  "overall_confidence ingredients =
     (case confidence_warning ingredients of
        None \<Rightarrow> High
      | Some cls \<Rightarrow> if cls = ''warning-low'' then Low else Medium)"

fun rank :: "confidence \<Rightarrow> nat" where
  "rank Low = 0"
| "rank Medium = 1"
| "rank High = 2"

definition tiers :: "ingredient list \<Rightarrow> confidence list" where
  "tiers ingredients = List.map_filter confidence ingredients"

subsection \<open>Unit conversion\<close>

text \<open>
  \<open>convertIngredientToGrams\<close> posts the measurement to the back end and awaits the answer.
  The back end is a parameter: a function from the request to the response the awaited calls
  settle with. \<open>fetch\<close> may reject, \<open>response.json()\<close> may reject, and a parsed body
  carries \<open>success\<close>, \<open>error\<close> and \<open>result\<close>. A result object is typed by the
  back end's contract (\<open>grams\<close> is a number). A thrown exception is \<open>Inl\<close>.
\<close>

datatype js_exn = Thrown string

record conversion =
  grams :: real
  result_confidence :: "confidence option"
  result_note :: "string option"

record convert_data =
  data_success :: bool
  data_error :: "string option"
  data_result :: "conversion option"

datatype response = FetchFailed string | InvalidJson string | Json convert_data

type_synonym convert_server = "string \<Rightarrow> real \<Rightarrow> string \<Rightarrow> response"

definition convertIngredientToGrams ::
  "convert_server \<Rightarrow> string \<Rightarrow> real \<Rightarrow> string \<Rightarrow> js_exn + conversion option" where
  "convertIngredientToGrams server name qty u =
     (case server name qty u of
        FetchFailed msg \<Rightarrow> Inl (Thrown msg)
      | InvalidJson msg \<Rightarrow> Inl (Thrown msg)
      | Json data \<Rightarrow>
          if \<not> data_success data
          then Inl (Thrown (case data_error data of
                              None \<Rightarrow> ''Conversion failed''
                            | Some e \<Rightarrow> if e = [] then ''Conversion failed'' else e))
          else Inr (data_result data))"

text \<open>
  The state of the builder that the conversion touches: the ingredient list, the set
  \<open>convertingIds\<close>, and the requests sent to the back end so far (the effect of \<open>fetch\<close>,
  recorded so that "no lookup was made" can be stated).
\<close>

record builder =
  ingredients :: "ingredient list"
  convertingIds :: "nat set"
  requests :: "(string \<times> real \<times> string) list"

text \<open>
  \<open>convertIngredient\<close>: the early return for grams, then \<open>try\<close> / \<open>catch\<close> /
  \<open>finally\<close>. Reading \<open>result.grams\<close> of an \<open>undefined\<close> result throws a
  \<open>TypeError\<close> inside the \<open>try\<close> block. The \<open>catch\<close> branch handles every exception
  of the block. The function's own outcome is again a sum, so that "never raises" is a
  statement about it.
\<close>

definition convertIngredient ::
  "convert_server \<Rightarrow> ingredient \<Rightarrow> builder \<Rightarrow> (js_exn + conversion) \<times> builder" where
  "convertIngredient server ingredient st =
     (if unit ingredient = ''g''
      then (Inr \<lparr>grams = quantity ingredient, result_confidence = Some High, result_note = None\<rparr>, st)
      else
        let st1 = st\<lparr>convertingIds := insert (ing_id ingredient) (convertingIds st)\<rparr>;
            st2 = st1\<lparr>requests := requests st1 @
                    [(description ingredient, quantity ingredient, unit ingredient)]\<rparr>;
            tried =
              (case convertIngredientToGrams server (description ingredient)
                      (quantity ingredient) (unit ingredient) of
                 Inl err \<Rightarrow> Inl err
               | Inr None \<Rightarrow> Inl (Thrown ''TypeError'')
               | Inr (Some result) \<Rightarrow>
                   Inr \<lparr>grams = grams result, result_confidence = result_confidence result,
                        result_note = result_note result\<rparr>);
            caught =
              (case tried of
                 Inl err \<Rightarrow>
                   Inr \<lparr>grams = quantity ingredient * 100, result_confidence = Some Low,
                        result_note = Some ''Conversion failed. Using rough estimate.''\<rparr>
               | Inr r \<Rightarrow> Inr r);
            st3 = st2\<lparr>convertingIds := convertingIds st2 - {ing_id ingredient}\<rparr>
        in (caught, st3))"

text \<open>
  \<open>handleUnitChange\<close>. Its first \<open>setIngredients\<close> maps \<open>unitChanged\<close> over the list:
  the entries with the given id take the new unit and are either resolved directly (grams) or
  marked as needing conversion (\<open>weight_g\<close> and \<open>confidence\<close> set to \<open>null\<close>). The lookup
  of \<open>ingredient\<close> reads the list as it was when the handler was called. For a unit other than
  grams the conversion is awaited and the second \<open>setIngredients\<close> maps
  \<open>conversionApplied\<close> over the list. The handler is modelled run to completion, with no
  other handler interleaved at the \<open>await\<close>.
\<close>

definition unitChanged :: "nat \<Rightarrow> string \<Rightarrow> ingredient \<Rightarrow> ingredient" where
  "unitChanged i u ing =
     (if ing_id ing \<noteq> i then ing
      else if u = ''g''
      then ing\<lparr>unit := u, weight_g := Some (quantity ing),
               confidence := Some High, conversionNote := None\<rparr>
      else ing\<lparr>unit := u, weight_g := None, confidence := None\<rparr>)"

text \<open>The first \<open>setIngredients\<close> of \<open>handleQuantityChange\<close> maps \<open>quantityChanged\<close>
  over the list, with the quantity already parsed to a number: an entry in grams is resolved
  directly, any other entry with the id is marked as needing conversion.\<close>

definition quantityChanged :: "nat \<Rightarrow> real \<Rightarrow> ingredient \<Rightarrow> ingredient" where
  "quantityChanged i parsedQuantity ing =
     (if ing_id ing \<noteq> i then ing
      else if unit ing = ''g''
      then ing\<lparr>quantity := parsedQuantity, weight_g := Some parsedQuantity,
               confidence := Some High, conversionNote := None\<rparr>
      else ing\<lparr>quantity := parsedQuantity, weight_g := None, confidence := None\<rparr>)"

definition conversionApplied :: "nat \<Rightarrow> conversion \<Rightarrow> ingredient \<Rightarrow> ingredient" where
  "conversionApplied i result ing =
     (if ing_id ing = i
      then ing\<lparr>weight_g := Some (grams result), confidence := result_confidence result,
               conversionNote := result_note result\<rparr>
      else ing)"

definition handleUnitChange :: "convert_server \<Rightarrow> nat \<Rightarrow> string \<Rightarrow> builder \<Rightarrow> builder" where
  "handleUnitChange server i u st =
     (let st1 = st\<lparr>ingredients := map (unitChanged i u) (ingredients st)\<rparr>
      in case find (\<lambda>ing. ing_id ing = i) (ingredients st) of
           None \<Rightarrow> st1
         | Some ingredient \<Rightarrow>
             if u \<noteq> ''g'' then
               (case convertIngredient server (ingredient\<lparr>unit := u\<rparr>) st1 of
                  (Inl err, st2) \<Rightarrow> st2
                | (Inr result, st2) \<Rightarrow>
                    st2\<lparr>ingredients := map (conversionApplied i result) (ingredients st2)\<rparr>)
             else st1)"

subsection \<open>The handlers at their \<open>await\<close>\<close>

text \<open>
  An \<open>async\<close> handler runs up to its \<open>await\<close>, returns to the event loop, and is resumed
  when the awaited lookup settles; other handlers can run in between. The definitions below are
  the two halves of the code above: what runs before the \<open>await\<close>, and the continuation,
  which is given the outcome of the lookup. \<open>isConverting\<close> is the builder's own flag
  \<open>convertingIds.size > 0\<close>.
\<close>

definition isConverting :: "builder \<Rightarrow> bool" where
  "isConverting st = (convertingIds st \<noteq> {})"

definition convertIngredient_begin :: "ingredient \<Rightarrow> builder \<Rightarrow> builder" where
  "convertIngredient_begin ingredient st =
     (if unit ingredient = ''g'' then st
      else
        let st1 = st\<lparr>convertingIds := insert (ing_id ingredient) (convertingIds st)\<rparr>
        in st1\<lparr>requests := requests st1 @
                [(description ingredient, quantity ingredient, unit ingredient)]\<rparr>)"

definition convertIngredient_settle ::
  "ingredient \<Rightarrow> js_exn + conversion option \<Rightarrow> builder \<Rightarrow> conversion \<times> builder" where
  "convertIngredient_settle ingredient outcome st =
     (let result =
            (case outcome of
               Inr (Some result) \<Rightarrow>
                 \<lparr>grams = grams result, result_confidence = result_confidence result,
                  result_note = result_note result\<rparr>
             | _ \<Rightarrow>
                 \<lparr>grams = quantity ingredient * 100, result_confidence = Some Low,
                  result_note = Some ''Conversion failed. Using rough estimate.''\<rparr>)
      in (result, st\<lparr>convertingIds := convertingIds st - {ing_id ingredient}\<rparr>))"

definition unitChange_begin :: "nat \<Rightarrow> string \<Rightarrow> builder \<Rightarrow> builder" where
  "unitChange_begin i u st =
     (let st1 = st\<lparr>ingredients := map (unitChanged i u) (ingredients st)\<rparr>
      in case find (\<lambda>ing. ing_id ing = i) (ingredients st) of
           None \<Rightarrow> st1
         | Some ingredient \<Rightarrow>
             if u \<noteq> ''g'' then convertIngredient_begin (ingredient\<lparr>unit := u\<rparr>) st1 else st1)"

text \<open>\<open>handleQuantityChange\<close> up to its \<open>await\<close>: the conversion is started when the
  ingredient found is not measured in grams.\<close>

definition quantityChange_begin :: "nat \<Rightarrow> real \<Rightarrow> builder \<Rightarrow> builder" where
  "quantityChange_begin i parsedQuantity st =
     (let st1 = st\<lparr>ingredients := map (quantityChanged i parsedQuantity) (ingredients st)\<rparr>
      in case find (\<lambda>ing. ing_id ing = i) (ingredients st) of
           None \<Rightarrow> st1
         | Some ingredient \<Rightarrow>
             if unit ingredient \<noteq> ''g''
             then convertIngredient_begin (ingredient\<lparr>quantity := parsedQuantity\<rparr>) st1
             else st1)"

text \<open>The continuation of either handler: the conversion's result is written to the entries
  with the id.\<close>

definition change_settle ::
  "nat \<Rightarrow> ingredient \<Rightarrow> js_exn + conversion option \<Rightarrow> builder \<Rightarrow> builder" where
  "change_settle i ingredient outcome st =
     (case convertIngredient_settle ingredient outcome st of
        (result, st2) \<Rightarrow>
          st2\<lparr>ingredients := map (conversionApplied i result) (ingredients st2)\<rparr>)"

section \<open>The recipe review (components/RecipeReview)\<close>

text \<open>
  The initial state of \<open>yieldWeight\<close>:
  \<open>nutritionResult?.yield_weight_g || nutritionResult?.total_raw_weight_g || 0\<close>.
  \<open>a || b\<close> is \<open>a\<close> when \<open>a\<close> is truthy (a number other than 0) and \<open>b\<close> otherwise.
\<close>

record nutrition_result =
  yield_weight_g :: "real option"
  total_raw_weight_g :: "real option"

definition truthy :: "real option \<Rightarrow> bool" where
  "truthy v = (case v of None \<Rightarrow> False | Some x \<Rightarrow> x \<noteq> 0)"

definition initial_yieldWeight :: "nutrition_result option \<Rightarrow> real" where
  "initial_yieldWeight nutritionResult =
     (let y = (case nutritionResult of None \<Rightarrow> None | Some r \<Rightarrow> yield_weight_g r);
          t = (case nutritionResult of None \<Rightarrow> None | Some r \<Rightarrow> total_raw_weight_g r)
      in if truthy y then to_number y
         else if truthy t then to_number t
         else 0)"

section \<open>The yield normaliser\<close>

text \<open>The validation error of the specification's error taxonomy.\<close>

datatype validation_error = ValidationError

text \<open>
  Modelled from the spec: the yield normaliser (\<open>YieldNormalizer.normalize\<close>) runs in the back
  end behind \<open>/recipe/calculate\<close>, and the back end is not among the sources. Its scale
  factor is given as \<open>total_raw_weight_g / yield_weight_g\<close>.
\<close>

definition scale_factor :: "real \<Rightarrow> real \<Rightarrow> real" where
  "scale_factor total_raw yield = total_raw / yield"

text \<open>
  Modelled from the spec: \<open>YieldNormalizer.normalize\<close>, missing with the back end. The
  specification gives it as \<open>normalized[k] = aggregate[k] * (total_raw_weight_g /
  yield_weight_g)\<close> for every key, and a yield weight \<open>\<le> 0\<close> is rejected with a validation
  error.
\<close>

definition normalize_profile ::
  "(string \<times> real) list \<Rightarrow> real \<Rightarrow> real \<Rightarrow> validation_error + (string \<times> real) list" where
  "normalize_profile aggregate total_raw yield =
     (if yield \<le> 0 then Inl ValidationError
      else Inr (map (\<lambda>(k, v). (k, v * scale_factor total_raw yield)) aggregate))"

section \<open>The serving size form (components/ServingSizeForm)\<close>

text \<open>
  The form's state, and \<open>handleSubmit\<close>. The calculator \<open>calculatePerServing\<close> is a call to
  the back end and is a parameter; the outcome of a submit is the new state, the list of
  configurations the calculator was called with, and the arguments of \<open>onConfirm\<close> when it was
  called.
\<close>

text \<open>
  The serving description is a JavaScript string, a sequence of UTF-16 code units; the other
  strings of the form are fixed messages. \<open>js_string\<close> gives the code units of an ASCII
  literal.
\<close>

type_synonym js_string = "nat list"

definition js_string :: "string \<Rightarrow> js_string" where
  "js_string s = map of_char s"

record serving_form =
  servingSizeG :: real
  servingDescription :: js_string
  servingsPerContainer :: real
  isCalculating :: bool
  error :: "string option"

record servingConfig =
  serving_size_g :: real
  serving_size_description :: js_string
  servings_per_container :: real

record 'p submit_outcome =
  form :: serving_form
  calculator_calls :: "servingConfig list"
  confirmed :: "(servingConfig \<times> 'p) option"

text \<open>
  The code units that \<open>String.prototype.trim\<close> strips: the white space of ECMAScript (tab,
  vertical tab, form feed, space, no-break space, the byte order mark U+FEFF and the Unicode
  space separators U+1680, U+2000 to U+200A, U+202F, U+205F, U+3000) and its line terminators
  (line feed, carriage return, U+2028, U+2029).
\<close>

definition is_white_space :: "nat \<Rightarrow> bool" where
  "is_white_space c =
     (c \<in> set [0x0009, 0x000B, 0x000C, 0x0020, 0x00A0, 0xFEFF, 0x1680, 0x202F, 0x205F, 0x3000,
               0x000A, 0x000D, 0x2028, 0x2029]
      \<or> (0x2000 \<le> c \<and> c \<le> 0x200A))"

text \<open>\<open>!servingDescription.trim()\<close>: nothing is left once white space is trimmed from both
  ends, that is, every code unit is white space.\<close>

definition blank :: "js_string \<Rightarrow> bool" where
  "blank s = list_all is_white_space s"

definition handleSubmit ::
  "('n \<Rightarrow> servingConfig \<Rightarrow> js_exn + 'p) \<Rightarrow> 'n \<Rightarrow> serving_form \<Rightarrow> 'p submit_outcome" where
  "handleSubmit calculatePerServing nutrition' st =
     (let st0 = st\<lparr>error := None\<rparr> in
      if servingSizeG st0 \<le> 0
      then \<lparr>form = st0\<lparr>error := Some ''Serving size must be greater than 0''\<rparr>,
            calculator_calls = [], confirmed = None\<rparr>
      else if servingsPerContainer st0 \<le> 0
      then \<lparr>form = st0\<lparr>error := Some ''Servings per container must be greater than 0''\<rparr>,
            calculator_calls = [], confirmed = None\<rparr>
      else if blank (servingDescription st0)
      then \<lparr>form = st0\<lparr>error := Some ''Please enter a serving description''\<rparr>,
            calculator_calls = [], confirmed = None\<rparr>
      else
        let st1 = st0\<lparr>isCalculating := True\<rparr>;
            config = \<lparr>serving_size_g = servingSizeG st1,
                      serving_size_description = servingDescription st1,
                      servings_per_container = servingsPerContainer st1\<rparr>
        in case calculatePerServing nutrition' config of
             Inr perServing \<Rightarrow>
               \<lparr>form = st1\<lparr>isCalculating := False\<rparr>,
                calculator_calls = [config], confirmed = Some (config, perServing)\<rparr>
           | Inl (Thrown msg) \<Rightarrow>
               \<lparr>form = st1\<lparr>error := Some (if msg = [] then ''Calculation failed'' else msg),
                            isCalculating := False\<rparr>,
                calculator_calls = [config], confirmed = None\<rparr>)"

section \<open>Example inputs\<close>

text \<open>The two ingredients of the specification's example: A is 200 g with 100 kcal and 10 g
  protein per 100 g, B is 100 g with 50 kcal and no protein.\<close>

definition example_A :: ingredient where
  "example_A =
     \<lparr>ing_id = 1, description = ''A'', quantity = 200, unit = ''g'', weight_g = Some 200,
      confidence = Some High, conversionNote = None,
      nutrition = [''calories'' \<mapsto> 100, ''protein_g'' \<mapsto> 10]\<rparr>"

definition example_B :: ingredient where
  "example_B =
     \<lparr>ing_id = 2, description = ''B'', quantity = 100, unit = ''g'', weight_g = Some 100,
      confidence = Some High, conversionNote = None,
      nutrition = [''calories'' \<mapsto> 50, ''protein_g'' \<mapsto> 0]\<rparr>"

text \<open>An ingredient entered in cups, its conversion still outstanding; the same ingredient
  after a conversion that fell back to the estimate, and after one of medium confidence.\<close>

definition example_pending :: ingredient where
  "example_pending =
     \<lparr>ing_id = 3, description = ''mystery powder'', quantity = 2, unit = ''cup'',
      weight_g = None, confidence = None, conversionNote = None,
      nutrition = [''calories'' \<mapsto> 400]\<rparr>"

definition example_estimated :: ingredient where
  "example_estimated =
     example_pending\<lparr>weight_g := Some 200, confidence := Some Low,
                     conversionNote := Some ''Conversion failed. Using rough estimate.''\<rparr>"

definition example_approximate :: ingredient where
  "example_approximate = example_pending\<lparr>weight_g := Some 250, confidence := Some Medium\<rparr>"

text \<open>A back end that cannot be reached, and one that answers \<open>success: false\<close>.\<close>

definition unreachable_server :: convert_server where
  "unreachable_server name qty u = FetchFailed ''Failed to fetch''"

definition refusing_server :: convert_server where
  "refusing_server name qty u =
     Json \<lparr>data_success = False, data_error = None, data_result = None\<rparr>"

definition empty_builder :: builder where
  "empty_builder = \<lparr>ingredients = [], convertingIds = {}, requests = []\<rparr>"

text \<open>A builder in which the conversion of \<open>example_pending\<close> is in flight.\<close>

definition pending_builder :: builder where
  "pending_builder =
     \<lparr>ingredients = [example_A, example_pending], convertingIds = {3},
      requests = [(''mystery powder'', 2, ''cup'')]\<rparr>"

text \<open>A builder with A and the powder entered as 2 g, nothing in flight; and one with the
  powder converted from 2 cups to 250 g.\<close>

definition resolved_builder :: builder where
  "resolved_builder =
     \<lparr>ingredients =
        [example_A,
         example_pending\<lparr>unit := ''g'', weight_g := Some 2, confidence := Some High\<rparr>],
      convertingIds = {}, requests = []\<rparr>"

definition converted_builder :: builder where
  "converted_builder =
     \<lparr>ingredients = [example_A, example_approximate], convertingIds = {}, requests = []\<rparr>"

text \<open>The form as it is first shown, and a calculator that answers.\<close>

definition default_form :: serving_form where
  "default_form =
     \<lparr>servingSizeG = 30, servingDescription = js_string ''1 serving (30g)'',
      servingsPerContainer = 1, isCalculating = False, error = None\<rparr>"

definition accepting_calculator :: "(string \<rightharpoonup> real) \<Rightarrow> servingConfig \<Rightarrow> js_exn + real" where
  "accepting_calculator n config = Inr (serving_size_g config)"

section \<open>The aggregation computes the specified formula\<close>

lemma foldl_weight:
  "foldl (\<lambda>sum ing. sum + to_number (weight_g ing)) a ings = a + total_mass ings"
  by (induction ings arbitrary: a) (simp_all add: total_mass_def)

lemma add_weighted_eq:
  "add_weighted ing combined = map (\<lambda>(key, v). (key, v + contribution ing key)) combined"
  by (auto simp: add_weighted_def contribution_def Let_def split: option.split)

lemma fold_add_weighted:
  "fold add_weighted ings combined =
     map (\<lambda>(key, v). (key, v + (\<Sum>ing\<leftarrow>ings. contribution ing key))) combined"
proof (induction ings arbitrary: combined)
  case Nil
  show ?case by (simp add: case_prod_unfold)
next
  case (Cons ing ings)
  have "fold add_weighted (ing # ings) combined =
          fold add_weighted ings (add_weighted ing combined)"
    by simp
  also have "\<dots> = map (\<lambda>(key, v). (key, v + (\<Sum>ing\<leftarrow>ings. contribution ing key)))
                      (add_weighted ing combined)"
    by (rule Cons.IH)
  also have "\<dots> = map (\<lambda>(key, v). (key, v + (\<Sum>ing\<leftarrow>ing # ings. contribution ing key)))
                      combined"
    by (simp add: add_weighted_eq case_prod_unfold add.assoc)
  finally show ?case .
qed

lemma combineIngredients_eq:
  "combineIngredients ings =
     (if total_mass ings = 0 then None
      else Some (map (\<lambda>key. (key, spec_combined ings key)) nutrient_keys))"
  by (simp add: combineIngredients_def foldl_weight fold_add_weighted Let_def
      case_prod_unfold comp_def spec_combined_def)

lemma combined_value_eq:
  "combined_value (combineIngredients ings) k =
     (if total_mass ings = 0 \<or> k \<notin> set nutrient_keys then None
      else Some (spec_combined ings k))"
  by (simp add: combined_value_def combineIngredients_eq map_of_map_restrict restrict_map_def)

lemma total_mass_pos:
  assumes "ings \<noteq> []" and "\<forall>ing\<in>set ings. \<exists>w. weight_g ing = Some w \<and> 0 < w"
  shows "0 < total_mass ings"
  using assms
proof (induction ings)
  case Nil
  then show ?case by simp
next
  case (Cons ing ings)
  from Cons.prems(2) obtain w where w: "weight_g ing = Some w" "0 < w"
    by auto
  have "0 \<le> total_mass ings"
  proof (cases "ings = []")
    case True
    then show ?thesis by (simp add: total_mass_def)
  next
    case False
    with Cons show ?thesis by (simp add: less_imp_le)
  qed
  with w show ?case
    by (simp add: total_mass_def to_number_def)
qed

text \<open>
  Claim C1. For a non-empty list of ingredients, each with a positive gram weight,
  \<open>combineIngredients\<close> returns an object with exactly the fifteen recognised keys, and the
  value of each key \<open>k\<close> is \<open>(\<Sum>\<^sub>i grams\<^sub>i / 100 * profile\<^sub>i[k]) * (100 / total_mass)\<close>, where
  \<open>total_mass\<close> is the sum of the gram weights.
\<close>

theorem combineIngredients_formula:
  assumes "ings \<noteq> []"
    and "\<forall>ing\<in>set ings. \<exists>w. weight_g ing = Some w \<and> 0 < w"
  shows "\<exists>combined. combineIngredients ings = Some combined
           \<and> map fst combined = nutrient_keys
           \<and> (\<forall>k\<in>set nutrient_keys.
                 map_of combined k =
                   Some ((\<Sum>ing\<leftarrow>ings. contribution ing k) * (100 / total_mass ings)))"
proof -
  from assms have "total_mass ings \<noteq> 0"
    using total_mass_pos [of ings] by simp
  then have "combineIngredients ings =
      Some (map (\<lambda>key. (key, spec_combined ings key)) nutrient_keys)"
    by (simp add: combineIngredients_eq)
  moreover have "map fst (map (\<lambda>key. (key, spec_combined ings key)) nutrient_keys) = nutrient_keys"
    by (simp add: comp_def)
  moreover have "\<forall>k\<in>set nutrient_keys.
      map_of (map (\<lambda>key. (key, spec_combined ings key)) nutrient_keys) k =
        Some ((\<Sum>ing\<leftarrow>ings. contribution ing k) * (100 / total_mass ings))"
    by (simp add: map_of_map_restrict spec_combined_def)
  ultimately show ?thesis by blast
qed

text \<open>The specification's example: A and B combine to 250/3 kcal (83.33) and 20/3 g protein
  (6.67) per 100 g.\<close>

theorem combineIngredients_formula_example:
  "\<exists>combined. combineIngredients [example_A, example_B] = Some combined
     \<and> map_of combined ''calories'' = Some (250 / 3)
     \<and> map_of combined ''protein_g'' = Some (20 / 3)"
proof -
  have ne: "[example_A, example_B] \<noteq> []" by simp
  have pos: "\<forall>ing\<in>set [example_A, example_B]. \<exists>w. weight_g ing = Some w \<and> 0 < w"
    by (simp add: example_A_def example_B_def)
  have keys: "''calories'' \<in> set nutrient_keys" "''protein_g'' \<in> set nutrient_keys"
    by (simp_all add: nutrient_keys_def)
  have cal: "(\<Sum>ing\<leftarrow>[example_A, example_B]. contribution ing ''calories'')
               * (100 / total_mass [example_A, example_B]) = 250 / 3"
    by (simp add: contribution_def total_mass_def to_number_def example_A_def example_B_def)
  have prot: "(\<Sum>ing\<leftarrow>[example_A, example_B]. contribution ing ''protein_g'')
               * (100 / total_mass [example_A, example_B]) = 20 / 3"
    by (simp add: contribution_def total_mass_def to_number_def example_A_def example_B_def)
  from combineIngredients_formula [OF ne pos] keys cal prot show ?thesis
    by metis
qed

section \<open>Absent nutrients\<close>

lemma sum_list_suppliers:
  "(\<Sum>ing\<leftarrow>ings. contribution ing k) =
     (\<Sum>ing\<leftarrow>suppliers k ings. to_number (weight_g ing) / 100 * the (nutrition ing k))"
  by (induction ings) (auto simp: suppliers_def contribution_def)

text \<open>
  Claim C2, as the code has it. A key absent on an ingredient contributes 0 to the sum for that
  key only: the value of a recognised key \<open>k\<close> is the weighted sum over the ingredients that
  supply \<open>k\<close> (for these \<open>nutrition ing k\<close> is \<open>Some\<close>), rescaled by the total mass of all
  ingredients. The aggregator keeps no record of which keys were supplied: every recognised key
  has a number in the result, and a key that no ingredient supplies has the number 0.
\<close>

theorem absent_key_contributes_zero:
  assumes "total_mass ings \<noteq> 0" and "k \<in> set nutrient_keys"
  shows "combined_value (combineIngredients ings) k =
           Some ((\<Sum>ing\<leftarrow>suppliers k ings. to_number (weight_g ing) / 100 * the (nutrition ing k))
                   * (100 / total_mass ings))
         \<and> (suppliers k ings = [] \<longrightarrow> combined_value (combineIngredients ings) k = Some 0)"
proof -
  have "combined_value (combineIngredients ings) k = Some (spec_combined ings k)"
    using assms by (simp add: combined_value_eq)
  moreover have "spec_combined ings k =
      (\<Sum>ing\<leftarrow>suppliers k ings. to_number (weight_g ing) / 100 * the (nutrition ing k))
        * (100 / total_mass ings)"
    by (simp add: spec_combined_def sum_list_suppliers)
  ultimately show ?thesis by simp
qed

text \<open>With B's protein entry removed, protein is summed over A alone and still divided by the
  300 g of both; iron, which neither supplies, is 0.\<close>

theorem absent_key_example:
  "suppliers ''iron_mg'' [example_A, example_B] = []
   \<and> combined_value (combineIngredients [example_A, example_B]) ''iron_mg'' = Some 0
   \<and> suppliers ''protein_g'' [example_A, example_B\<lparr>nutrition := [''calories'' \<mapsto> 50]\<rparr>]
        = [example_A]
   \<and> combined_value
        (combineIngredients [example_A, example_B\<lparr>nutrition := [''calories'' \<mapsto> 50]\<rparr>])
        ''protein_g'' = Some (20 / 3)"
proof -
  have k: "''iron_mg'' \<in> set nutrient_keys" "''protein_g'' \<in> set nutrient_keys"
    by (simp_all add: nutrient_keys_def)
  have m: "total_mass [example_A, example_B] \<noteq> 0"
    "total_mass [example_A, example_B\<lparr>nutrition := [''calories'' \<mapsto> 50]\<rparr>] \<noteq> 0"
    by (simp_all add: total_mass_def to_number_def example_A_def example_B_def)
  have s: "suppliers ''iron_mg'' [example_A, example_B] = []"
    "suppliers ''protein_g'' [example_A, example_B\<lparr>nutrition := [''calories'' \<mapsto> 50]\<rparr>]
       = [example_A]"
    by (simp_all add: suppliers_def example_A_def example_B_def)
  have v: "to_number (weight_g example_A) / 100 * the (nutrition example_A ''protein_g'')
      * (100 / total_mass [example_A, example_B\<lparr>nutrition := [''calories'' \<mapsto> 50]\<rparr>]) = 20 / 3"
    by (simp add: total_mass_def to_number_def example_A_def example_B_def)
  from absent_key_contributes_zero [OF m(1) k(1)] absent_key_contributes_zero [OF m(2) k(2)] s v
  show ?thesis by simp
qed

text \<open>The claim as written fails: neither A nor B supplies \<open>iron_mg\<close>, and the combined
  result holds the number 0 for it instead of leaving it unknown.\<close>

theorem unsupplied_key_is_zero_not_unknown:
  "nutrition example_A ''iron_mg'' = None \<and> nutrition example_B ''iron_mg'' = None
   \<and> combined_value (combineIngredients [example_A, example_B]) ''iron_mg'' = Some 0"
  by (simp add: combined_value_eq total_mass_def to_number_def example_A_def example_B_def
      nutrient_keys_def spec_combined_def contribution_def)

section \<open>The undefined profile\<close>

text \<open>
  Claim C4. \<open>combineIngredients\<close> returns \<open>null\<close> for the empty list, and for every list
  whose gram weights sum to 0.
\<close>

theorem combineIngredients_null:
  "combineIngredients [] = None \<and> (total_mass ings = 0 \<longrightarrow> combineIngredients ings = None)"
  by (simp add: combineIngredients_eq total_mass_def)

theorem combineIngredients_null_example:
  "total_mass [example_A\<lparr>weight_g := Some 0\<rparr>, example_B\<lparr>weight_g := Some 0\<rparr>] = 0
   \<and> combineIngredients [example_A\<lparr>weight_g := Some 0\<rparr>, example_B\<lparr>weight_g := Some 0\<rparr>] = None"
proof -
  have "total_mass [example_A\<lparr>weight_g := Some 0\<rparr>, example_B\<lparr>weight_g := Some 0\<rparr>] = 0"
    by (simp add: total_mass_def to_number_def)
  with combineIngredients_null
    [of "[example_A\<lparr>weight_g := Some 0\<rparr>, example_B\<lparr>weight_g := Some 0\<rparr>]"]
  show ?thesis by simp
qed

section \<open>Rescaling the weights\<close>

subsection \<open>Exact arithmetic\<close>

lemma total_mass_scale: "total_mass (scale_weights c ings) = total_mass ings * c"
  by (induction ings)
    (auto simp: total_mass_def scale_weights_def to_number_def algebra_simps split: option.split)

lemma contribution_scale:
  "(\<Sum>ing\<leftarrow>scale_weights c ings. contribution ing k) = (\<Sum>ing\<leftarrow>ings. contribution ing k) * c"
  by (induction ings)
    (auto simp: contribution_def scale_weights_def to_number_def algebra_simps split: option.split)

lemma spec_combined_scale:
  assumes "c \<noteq> 0"
  shows "spec_combined (scale_weights c ings) k = spec_combined ings k"
  using assms by (simp add: spec_combined_def total_mass_scale contribution_scale)

lemma combineIngredients_scale_real:
  assumes "0 < c"
  shows "combineIngredients (scale_weights c ings) = combineIngredients ings"
  using assms by (simp add: combineIngredients_eq total_mass_scale spec_combined_scale)

subsection \<open>The rounding commutes with a power of two\<close>

lemma pow2_eq: "pow2 e = power_int 2 e"
  by (simp add: pow2_def power_int_def power_inverse [symmetric] field_simps)

lemma bits_bounds: "0 < n \<Longrightarrow> 2 ^ (bits n - 1) \<le> n \<and> n < 2 ^ bits n"
proof (induction n rule: bits.induct)
  case (1 n)
  show ?case
  proof (cases "n div 2 = 0")
    case True
    with "1.prems" have "n = 1" by (simp add: div_eq_0_iff) 
    then show ?thesis by simp
  next
    case False
    with "1.prems" "1.IH" have IH: "2 ^ (bits (n div 2) - 1) \<le> n div 2" "n div 2 < 2 ^ bits (n div 2)"
      by auto
    have b: "bits n = Suc (bits (n div 2))" using "1.prems" by simp
    have pos: "0 < bits (n div 2)" using False by (subst bits.simps) simp
    from IH(1) have "2 * 2 ^ (bits (n div 2) - 1) \<le> n" by linarith
    moreover have "2 * 2 ^ (bits (n div 2) - 1) = (2::nat) ^ bits (n div 2)"
      using pos by (cases "bits (n div 2)") simp_all
    moreover from IH(2) have "n < 2 * 2 ^ bits (n div 2)" by linarith
    ultimately show ?thesis by (simp add: b)
  qed
qed


lemma pow2_pos: "0 < pow2 e"
  by (simp add: pow2_eq)

lemma pow2_add: "pow2 (a + b) = pow2 a * pow2 b"
  by (simp add: pow2_eq power_int_add)

lemma pow2_mono: "a \<le> b \<Longrightarrow> pow2 a \<le> pow2 b"
  by (simp add: pow2_eq power_int_increasing)

lemma pow2_nat: "pow2 (int k) = 2 ^ k"
  by (simp add: pow2_def)

lemma pow2_neg_nat: "pow2 (- int k) = 1 / 2 ^ k"
  by (simp add: pow2_eq power_int_minus field_simps)

lemma exponent_bounds:
  assumes "0 < x"
  shows "pow2 (exponent x) \<le> x \<and> x < pow2 (exponent x + 1)"
proof (cases "1 \<le> x")
  case True
  define n where "n = nat \<lfloor>x\<rfloor>"
  from True have n1: "0 < n"
    by (simp add: n_def)
  from True have n2: "real n \<le> x"
    by (simp add: n_def)
  from True have n3: "x < real n + 1"
    by (simp add: n_def)
  note n = n1 n2 n3
  from bits_bounds [OF n(1)] have b: "2 ^ (bits n - 1) \<le> n" "n < 2 ^ bits n"
    by simp_all
  have pos: "0 < bits n" using n(1) by (subst bits.simps) simp
  have e: "exponent x = int (bits n - 1)"
    using True pos by (simp add: exponent_def n_def)
  have e1: "exponent x + 1 = int (bits n)"
    using e pos by simp
  have "pow2 (exponent x) = 2 ^ (bits n - 1)"
    by (simp only: e pow2_nat)
  also have "\<dots> \<le> real n"
  proof -
    from b(1) have "real (2 ^ (bits n - 1)) \<le> real n" by (simp only: of_nat_le_iff)
    then show ?thesis by simp
  qed
  finally have lo: "pow2 (exponent x) \<le> x" using n(2) by simp
  from b(2) have "Suc n \<le> 2 ^ bits n" by simp
  then have "real (Suc n) \<le> real (2 ^ bits n)" by (simp only: of_nat_le_iff)
  then have "real n + 1 \<le> 2 ^ bits n" by simp
  with n(3) have "x < 2 ^ bits n" by (rule order_less_le_trans)
  then have hi: "x < pow2 (exponent x + 1)"
    by (simp only: e1 pow2_nat)
  from lo hi show ?thesis ..
next
  case False
  with assms have x: "0 < x" "x < 1" by simp_all
  define m where "m = nat (\<lceil>1 / x\<rceil> - 1)"
  from x have big: "1 < 1 / x" by simp
  then have c: "2 \<le> \<lceil>1 / x\<rceil>" by linarith
  then have m1: "0 < m"
    by (simp add: m_def)
  from c have m2: "real m < 1 / x"
    by (simp add: m_def) linarith
  from c have m3: "1 / x \<le> real m + 1"
    by (simp add: m_def) linarith
  note m = m1 m2 m3
  from bits_bounds [OF m(1)] have b: "2 ^ (bits m - 1) \<le> m" "m < 2 ^ bits m"
    by simp_all
  have pos: "0 < bits m" using m(1) by (subst bits.simps) simp
  have e: "exponent x = - int (bits m)"
    using False by (simp add: exponent_def m_def)
  have e1: "exponent x + 1 = - int (bits m - 1)"
    using e pos by simp
  from b(2) have "Suc m \<le> 2 ^ bits m" by simp
  then have "real (Suc m) \<le> real (2 ^ bits m)" by (simp only: of_nat_le_iff)
  then have "real m + 1 \<le> 2 ^ bits m" by simp
  with m(3) have "1 / x \<le> 2 ^ bits m" by (rule order_trans)
  with x(1) have "1 / 2 ^ bits m \<le> x"
    by (simp add: field_simps)
  then have lo: "pow2 (exponent x) \<le> x"
    by (simp only: e pow2_neg_nat)
  have "(2::real) ^ (bits m - 1) \<le> real m"
  proof -
    from b(1) have "real (2 ^ (bits m - 1)) \<le> real m" by (simp only: of_nat_le_iff)
    then show ?thesis by simp
  qed
  with m(2) have "2 ^ (bits m - 1) < 1 / x" by (rule order_le_less_trans [rotated -1])
  with x(1) have "x < 1 / 2 ^ (bits m - 1)"
    by (simp add: field_simps)
  then have hi: "x < pow2 (exponent x + 1)"
    by (simp only: e1 pow2_neg_nat)
  from lo hi show ?thesis ..
qed

lemma exponent_unique:
  assumes "0 < x" and "pow2 e \<le> x" and "x < pow2 (e + 1)"
  shows "exponent x = e"
proof (rule ccontr)
  assume ne: "exponent x \<noteq> e"
  from exponent_bounds [OF assms(1)]
  have b: "pow2 (exponent x) \<le> x" "x < pow2 (exponent x + 1)" by simp_all
  show False
  proof (cases "exponent x < e")
    case True
    then have "pow2 (exponent x + 1) \<le> pow2 e" by (intro pow2_mono) simp
    with b(2) assms(2) show False by simp
  next
    case False
    with ne have "e + 1 \<le> exponent x" by simp
    then have "pow2 (e + 1) \<le> pow2 (exponent x)" by (rule pow2_mono)
    with b(1) assms(3) show False by simp
  qed
qed

lemma exponent_scale:
  assumes "0 < x"
  shows "exponent (pow2 n * x) = exponent x + n"
proof (rule exponent_unique)
  from exponent_bounds [OF assms]
  have b: "pow2 (exponent x) \<le> x" "x < pow2 (exponent x + 1)" by simp_all
  show "0 < pow2 n * x" using assms pow2_pos by simp
  show "pow2 (exponent x + n) \<le> pow2 n * x"
    using b(1) pow2_pos [of n] by (simp add: pow2_add mult.commute)
  have "pow2 (exponent x + n + 1) = pow2 n * pow2 (exponent x + 1)"
    by (simp add: pow2_add [symmetric] add.commute add.left_commute)
  then show "pow2 n * x < pow2 (exponent x + n + 1)"
    using b(2) pow2_pos [of n] by simp
qed

lemma fl_scale: "fl (pow2 n * x) = pow2 n * fl x"
proof (cases "x = 0")
  case True
  then show ?thesis by (simp add: fl_def)
next
  case False
  then have ax: "0 < \<bar>x\<bar>" by simp
  have nz: "pow2 n * x \<noteq> 0" using False pow2_pos [of n] by simp
  have "\<bar>pow2 n * x\<bar> = pow2 n * \<bar>x\<bar>"
    using pow2_pos [of n] by (simp add: abs_mult)
  then have e: "exponent \<bar>pow2 n * x\<bar> - 52 = (exponent \<bar>x\<bar> - 52) + n"
    using exponent_scale [OF ax, of n] by simp
  have q: "pow2 n * x / pow2 ((exponent \<bar>x\<bar> - 52) + n) = x / pow2 (exponent \<bar>x\<bar> - 52)"
    using pow2_pos [of n] by (simp add: pow2_add)
  show ?thesis
    using False nz by (simp add: fl_def Let_def e q) (simp add: pow2_add)
qed


subsection \<open>The rounded aggregation under a power of two\<close>

lemma fadd_scale: "fadd (pow2 n * x) (pow2 n * y) = pow2 n * fadd x y"
  by (simp add: fadd_def fl_scale [symmetric] distrib_left)

lemma to_number_scale:
  "to_number (map_option (\<lambda>w. w * c) w0) = c * to_number w0"
  by (cases w0) (simp_all add: to_number_def)

lemma total_b64_scale:
  "foldl (\<lambda>sum ing. fadd sum (to_number (weight_g ing))) (pow2 n * a) (scale_weights (pow2 n) ings)
     = pow2 n * foldl (\<lambda>sum ing. fadd sum (to_number (weight_g ing))) a ings"
proof (induction ings arbitrary: a)
  case Nil
  show ?case by (simp add: scale_weights_def)
next
  case (Cons ing ings)
  have "scale_weights (pow2 n) (ing # ings) =
      ing\<lparr>weight_g := map_option (\<lambda>w. w * pow2 n) (weight_g ing)\<rparr> # scale_weights (pow2 n) ings"
    by (simp add: scale_weights_def)
  then show ?case
    by (simp add: to_number_scale fadd_scale Cons.IH)
qed

lemma add_weighted_b64_scale:
  "add_weighted_b64 (ing\<lparr>weight_g := map_option (\<lambda>w. w * pow2 n) (weight_g ing)\<rparr>)
       (map (\<lambda>(key, v). (key, pow2 n * v)) combined)
     = map (\<lambda>(key, v). (key, pow2 n * v)) (add_weighted_b64 ing combined)"
proof -
  have f: "fdiv (pow2 n * to_number (weight_g ing)) 100 = pow2 n * fdiv (to_number (weight_g ing)) 100"
    by (simp add: fdiv_def fl_scale [symmetric])
  have m: "fmul x (pow2 n * y) = pow2 n * fmul x y" for x y
    by (simp add: fmul_def fl_scale [symmetric] mult.left_commute)
  show ?thesis
    by (auto simp: add_weighted_b64_def Let_def to_number_scale f m fadd_scale split: option.split)
qed

lemma fold_add_weighted_b64_scale:
  "fold add_weighted_b64 (scale_weights (pow2 n) ings) (map (\<lambda>(key, v). (key, pow2 n * v)) combined)
     = map (\<lambda>(key, v). (key, pow2 n * v)) (fold add_weighted_b64 ings combined)"
proof (induction ings arbitrary: combined)
  case Nil
  show ?case by (simp add: scale_weights_def)
next
  case (Cons ing ings)
  have "scale_weights (pow2 n) (ing # ings) =
      ing\<lparr>weight_g := map_option (\<lambda>w. w * pow2 n) (weight_g ing)\<rparr> # scale_weights (pow2 n) ings"
    by (simp add: scale_weights_def)
  then show ?case
    by (simp only: fold_simps add_weighted_b64_scale Cons.IH)
qed

lemma pow2_inverse: "pow2 n * pow2 (- n) = 1"
  using pow2_add [of n "- n"] by (simp add: pow2_def)

lemma combineIngredients_b64_scale:
  "combineIngredients_b64 (scale_weights (pow2 n) ings) = combineIngredients_b64 ings"
proof -
  define T where "T = foldl (\<lambda>sum ing. fadd sum (to_number (weight_g ing))) 0 ings"
  have T': "foldl (\<lambda>sum ing. fadd sum (to_number (weight_g ing))) 0 (scale_weights (pow2 n) ings)
      = pow2 n * T"
    using total_b64_scale [of n 0 ings] by (simp add: T_def)
  have init: "map (\<lambda>key. (key, 0::real)) nutrient_keys
      = map (\<lambda>(key, v). (key, pow2 n * v)) (map (\<lambda>key. (key, 0)) nutrient_keys)"
    by simp
  have S': "fold add_weighted_b64 (scale_weights (pow2 n) ings) (map (\<lambda>key. (key, 0)) nutrient_keys)
      = map (\<lambda>(key, v). (key, pow2 n * v))
          (fold add_weighted_b64 ings (map (\<lambda>key. (key, 0)) nutrient_keys))"
    by (subst init) (rule fold_add_weighted_b64_scale)
  have "pow2 (- n) = 1 / pow2 n"
    using pow2_inverse [of n] pow2_pos [of n] by (simp add: field_simps)
  then have "100 / (pow2 n * T) = pow2 (- n) * (100 / T)"
    by simp
  then have F': "fdiv 100 (pow2 n * T) = pow2 (- n) * fdiv 100 T"
    by (simp only: fdiv_def fl_scale)
  have M: "fmul (pow2 n * v) (pow2 (- n) * f) = fmul v f" for v f
  proof -
    have "pow2 n * v * (pow2 (- n) * f) = (pow2 n * pow2 (- n)) * (v * f)"
      by (simp only: mult_ac)
    also have "\<dots> = v * f"
      by (simp only: pow2_inverse mult_1)
    finally show ?thesis by (simp only: fmul_def)
  qed
  have Z: "pow2 n * T = 0 \<longleftrightarrow> T = 0"
    using pow2_pos [of n] by simp
  show ?thesis
    unfolding combineIngredients_b64_def Let_def T' S' F' T_def [symmetric] Z
    by (simp add: case_prod_unfold comp_def M)
qed

text \<open>
  The claim as written fails in the arithmetic of the code. For A and B the rounded aggregation
  gives 7505999378950826 / 2^50 for protein (printed 6.666666666666666); with both weights
  multiplied by 10 it gives 7505999378950827 / 2^50 (printed 6.666666666666667).
\<close>

theorem rescaling_changes_rounded_result:
  "combined_value (combineIngredients_b64 [example_A, example_B]) ''protein_g''
     = Some (7505999378950826 / 2 ^ 50)
   \<and> map weight_g (scale_weights 10 [example_A, example_B]) = [Some 2000, Some 1000]
   \<and> combined_value (combineIngredients_b64 (scale_weights 10 [example_A, example_B]))
       ''protein_g''
     = Some (7505999378950827 / 2 ^ 50)"
  by (simp add: combined_value_def combineIngredients_b64_def add_weighted_b64_def fadd_def
      fmul_def fdiv_def scale_weights_def example_A_def example_B_def to_number_def
      nutrient_keys_def fl_def exponent_def round_even_def pow2_def Let_def)

text \<open>
  Claim C10, as the code has it. In exact arithmetic, multiplying every gram weight by a real
  \<open>c > 0\<close> leaves the result of \<open>combineIngredients\<close> unchanged, the \<open>null\<close> result
  included. With every operation rounded as the code rounds it, the result is unchanged when
  \<open>c\<close> is a power of two; for other factors no exact invariance is stated.
\<close>

theorem rescaling_invariance:
  "(0 < c \<longrightarrow> combineIngredients (scale_weights c ings) = combineIngredients ings)
   \<and> combineIngredients_b64 (scale_weights (pow2 n) ings) = combineIngredients_b64 ings"
  by (simp add: combineIngredients_scale_real combineIngredients_b64_scale)

theorem rescaling_invariance_example:
  "(0::real) < 3
   \<and> map weight_g (scale_weights 3 [example_A, example_B]) = [Some 600, Some 300]
   \<and> combineIngredients (scale_weights 3 [example_A, example_B])
       = combineIngredients [example_A, example_B]
   \<and> map weight_g (scale_weights (pow2 1) [example_A, example_B]) = [Some 400, Some 200]
   \<and> combineIngredients_b64 (scale_weights (pow2 1) [example_A, example_B])
       = combineIngredients_b64 [example_A, example_B]
   \<and> map weight_g (scale_weights (pow2 (- 2)) [example_A, example_B]) = [Some 50, Some 25]
   \<and> combineIngredients_b64 (scale_weights (pow2 (- 2)) [example_A, example_B])
       = combineIngredients_b64 [example_A, example_B]"
proof -
  have c: "(0::real) < 3" by simp
  have w: "map weight_g (scale_weights 3 [example_A, example_B]) = [Some 600, Some 300]"
    "map weight_g (scale_weights (pow2 1) [example_A, example_B]) = [Some 400, Some 200]"
    "map weight_g (scale_weights (pow2 (- 2)) [example_A, example_B]) = [Some 50, Some 25]"
    by (simp_all add: scale_weights_def pow2_def example_A_def example_B_def)
  from c w rescaling_invariance [of 3 "[example_A, example_B]" 1]
    rescaling_invariance [of 3 "[example_A, example_B]" "- 2"]
  show ?thesis by simp
qed

section \<open>The guard of the aggregation\<close>

lemma allConverted_iff:
  "allConverted ings \<longleftrightarrow> (\<forall>ing\<in>set ings. \<exists>w. weight_g ing = Some w \<and> 0 < w)"
  by (auto simp: allConverted_def list_all_iff to_number_def)

lemma unitChanged_pending:
  assumes "u \<noteq> ''g''" and "ing \<in> set ings" and "ing_id ing = i"
  shows "hasIncompleteConversions (map (unitChanged i u) ings)"
proof -
  from assms have "weight_g (unitChanged i u ing) = None"
    by (simp add: unitChanged_def)
  with assms(2) show ?thesis
    by (auto simp: hasIncompleteConversions_def list_ex_iff)
qed

lemma quantityChanged_pending:
  assumes "ing \<in> set ings" and "ing_id ing = i" and "unit ing \<noteq> ''g''"
  shows "hasIncompleteConversions (map (quantityChanged i q) ings)"
proof -
  from assms have "weight_g (quantityChanged i q ing) = None"
    by (simp add: quantityChanged_def)
  with assms(1) show ?thesis
    by (auto simp: hasIncompleteConversions_def list_ex_iff)
qed

text \<open>
  The guard is in the caller: \<open>combineIngredients\<close> itself accepts an ingredient whose weight
  is \<open>null\<close> and counts it with weight 0. Here the pending ingredient is dropped and the
  result is A's own profile.
\<close>

lemma combineIngredients_has_no_guard:
  "combined_value (combineIngredients [example_A, example_pending]) ''calories'' = Some 100"
  by (simp add: combined_value_eq total_mass_def to_number_def example_A_def example_pending_def
      nutrient_keys_def spec_combined_def contribution_def)

text \<open>
  The two halves of a handler compose to the handler run to completion.
\<close>

lemma convertIngredient_phases:
  assumes "unit ing \<noteq> ''g''"
  shows "convertIngredient server ing st =
           (case convertIngredient_settle ing
                   (convertIngredientToGrams server (description ing) (quantity ing) (unit ing))
                   (convertIngredient_begin ing st) of
              (result, st') \<Rightarrow> (Inr result, st'))"
  using assms
  by (simp add: convertIngredient_def convertIngredient_settle_def convertIngredient_begin_def
      Let_def split: sum.split option.split)

lemma handleUnitChange_phases:
  "handleUnitChange server i u st =
     (case find (\<lambda>ing. ing_id ing = i) (ingredients st) of
        None \<Rightarrow> unitChange_begin i u st
      | Some ingredient \<Rightarrow>
          if u \<noteq> ''g''
          then change_settle i (ingredient\<lparr>unit := u\<rparr>)
                 (convertIngredientToGrams server (description ingredient) (quantity ingredient) u)
                 (unitChange_begin i u st)
          else unitChange_begin i u st)"
  by (simp add: handleUnitChange_def unitChange_begin_def change_settle_def
      convertIngredient_phases Let_def split: option.split prod.split)

text \<open>
  The claim as written fails where it speaks of conversions that are outstanding: the guard
  reads the weights and never \<open>convertingIds\<close>. The powder, entered as 2 g, is changed to
  cups: the request is sent and the handler waits. Before the answer arrives the unit is
  changed back to grams. Every weight is now a positive number, a request is still in flight,
  and the combined profile is computed (20800 / 202 kcal per 100 g).
\<close>

theorem aggregate_computed_while_converting:
  "unitChange_begin 3 ''cup'' resolved_builder = pending_builder
   \<and> isConverting (handleUnitChange unreachable_server 3 ''g'' pending_builder)
   \<and> convertingIds (handleUnitChange unreachable_server 3 ''g'' pending_builder) = {3}
   \<and> requests (handleUnitChange unreachable_server 3 ''g'' pending_builder)
       = [(''mystery powder'', 2, ''cup'')]
   \<and> combined_value
       (combinedNutrition
          (ingredients (handleUnitChange unreachable_server 3 ''g'' pending_builder)))
       ''calories'' = Some (10400 / 101)"
proof -
  have 1: "unitChange_begin 3 ''cup'' resolved_builder = pending_builder"
    by (simp add: unitChange_begin_def resolved_builder_def pending_builder_def
        convertIngredient_begin_def unitChanged_def example_A_def example_pending_def Let_def)
  have 2: "handleUnitChange unreachable_server 3 ''g'' pending_builder =
      pending_builder\<lparr>ingredients :=
         [example_A,
          example_pending\<lparr>unit := ''g'', weight_g := Some 2, confidence := Some High\<rparr>]\<rparr>"
    by (simp add: handleUnitChange_def pending_builder_def unitChanged_def example_A_def
        example_pending_def Let_def)
  have 3: "combined_value
       (combinedNutrition [example_A,
          example_pending\<lparr>unit := ''g'', weight_g := Some 2, confidence := Some High\<rparr>])
       ''calories'' = Some (10400 / 101)"
    by (simp add: combinedNutrition_def allConverted_def combined_value_eq total_mass_def
        to_number_def example_A_def example_pending_def nutrient_keys_def spec_combined_def
        contribution_def)
  show ?thesis
    by (simp add: 1 2 3 isConverting_def) (simp add: pending_builder_def)
qed

text \<open>
  A second course of events. The powder stands at 2 cups, converted to 250 g. Its quantity is
  changed to 3 and, before the answer arrives, to 4: two requests are in flight. The answer to
  the first (375 g) is applied: the entry reads 4 cups and 375 g, \<open>convertingIds\<close> is empty
  although the second request has had no answer, and the combined profile is computed.
\<close>

lemma stale_answer_reenables_aggregate:
  "requests (quantityChange_begin 3 4 (quantityChange_begin 3 3 converted_builder))
     = [(''mystery powder'', 3, ''cup''), (''mystery powder'', 4, ''cup'')]
   \<and> combinedNutrition
       (ingredients (quantityChange_begin 3 4 (quantityChange_begin 3 3 converted_builder)))
     = None
   \<and> change_settle 3 (example_approximate\<lparr>quantity := 3\<rparr>)
       (Inr (Some \<lparr>grams = 375, result_confidence = Some Medium, result_note = None\<rparr>))
       (quantityChange_begin 3 4 (quantityChange_begin 3 3 converted_builder))
     = \<lparr>ingredients =
          [example_A,
           example_approximate\<lparr>quantity := 4, weight_g := Some 375, conversionNote := None\<rparr>],
        convertingIds = {},
        requests = [(''mystery powder'', 3, ''cup''), (''mystery powder'', 4, ''cup'')]\<rparr>
   \<and> combined_value
       (combinedNutrition
          [example_A,
           example_approximate\<lparr>quantity := 4, weight_g := Some 375, conversionNote := None\<rparr>])
       ''calories'' = Some (6800 / 23)"
proof -
  have 1: "quantityChange_begin 3 4 (quantityChange_begin 3 3 converted_builder) =
      \<lparr>ingredients = [example_A, example_pending\<lparr>quantity := 4\<rparr>], convertingIds = {3},
       requests = [(''mystery powder'', 3, ''cup''), (''mystery powder'', 4, ''cup'')]\<rparr>"
    by (simp add: quantityChange_begin_def converted_builder_def convertIngredient_begin_def
        quantityChanged_def example_A_def example_approximate_def example_pending_def Let_def)
  have 2: "combinedNutrition [example_A, example_pending\<lparr>quantity := 4\<rparr>] = None"
    by (simp add: combinedNutrition_def allConverted_def example_pending_def)
  have 3: "change_settle 3 (example_approximate\<lparr>quantity := 3\<rparr>)
       (Inr (Some \<lparr>grams = 375, result_confidence = Some Medium, result_note = None\<rparr>))
       \<lparr>ingredients = [example_A, example_pending\<lparr>quantity := 4\<rparr>], convertingIds = {3},
        requests = [(''mystery powder'', 3, ''cup''), (''mystery powder'', 4, ''cup'')]\<rparr>
     = \<lparr>ingredients =
          [example_A,
           example_approximate\<lparr>quantity := 4, weight_g := Some 375, conversionNote := None\<rparr>],
        convertingIds = {},
        requests = [(''mystery powder'', 3, ''cup''), (''mystery powder'', 4, ''cup'')]\<rparr>"
    by (simp add: change_settle_def convertIngredient_settle_def conversionApplied_def
        example_A_def example_approximate_def example_pending_def Let_def)
  have 4: "combined_value
       (combinedNutrition
          [example_A,
           example_approximate\<lparr>quantity := 4, weight_g := Some 375, conversionNote := None\<rparr>])
       ''calories'' = Some (6800 / 23)"
    by (simp add: combinedNutrition_def allConverted_def combined_value_eq total_mass_def
        to_number_def example_A_def example_approximate_def example_pending_def nutrient_keys_def
        spec_combined_def contribution_def)
  show ?thesis
    by (simp only: 1 2 3 4 builder.simps simp_thms)
qed

text \<open>
  Claim C3, as the code has it. The builder's aggregation \<open>combinedNutrition\<close> produces no
  profile when some ingredient has a gram weight that is \<open>null\<close> or not positive, instead of
  dropping that ingredient; in particular it produces none while some ingredient is marked as
  needing conversion (\<open>hasIncompleteConversions\<close>), and a change of an ingredient's unit to
  anything but grams, or of the quantity of an ingredient not measured in grams, marks it so.
\<close>

theorem combinedNutrition_fails_closed:
  "((\<exists>ing\<in>set ings. weight_g ing = None \<or> (\<exists>w. weight_g ing = Some w \<and> w \<le> 0))
      \<longrightarrow> combinedNutrition ings = None)
   \<and> (hasIncompleteConversions ings \<longrightarrow> combinedNutrition ings = None)
   \<and> (u \<noteq> ''g'' \<and> (\<exists>ing\<in>set ings. ing_id ing = i)
      \<longrightarrow> combinedNutrition (map (unitChanged i u) ings) = None)
   \<and> ((\<exists>ing\<in>set ings. ing_id ing = i \<and> unit ing \<noteq> ''g'')
      \<longrightarrow> combinedNutrition (map (quantityChanged i q) ings) = None)"
proof -
  have 1: "\<not> allConverted xs"
    if "\<exists>ing\<in>set xs. weight_g ing = None \<or> (\<exists>w. weight_g ing = Some w \<and> w \<le> 0)" for xs
    using that by (fastforce simp: allConverted_iff)
  have 2: "\<not> allConverted xs" if "hasIncompleteConversions xs" for xs
    using that by (fastforce simp: allConverted_iff hasIncompleteConversions_def list_ex_iff)
  have 3: "\<not> allConverted (map (unitChanged i u) ings)"
    if "u \<noteq> ''g''" "\<exists>ing\<in>set ings. ing_id ing = i"
    using that unitChanged_pending [of u _ ings i] 2 by blast
  have 4: "\<not> allConverted (map (quantityChanged i q) ings)"
    if "\<exists>ing\<in>set ings. ing_id ing = i \<and> unit ing \<noteq> ''g''"
    using that quantityChanged_pending [of _ ings i q] 2 by blast
  from 1 [of ings] 2 [of ings] 3 4 show ?thesis
    by (simp add: combinedNutrition_def)
qed

theorem combinedNutrition_fails_closed_example:
  "hasIncompleteConversions [example_A, example_pending]
   \<and> combinedNutrition [example_A, example_pending] = None
   \<and> combinedNutrition [example_A, example_B\<lparr>weight_g := Some (- 5)\<rparr>] = None
   \<and> combinedNutrition [example_A, example_B\<lparr>weight_g := Some 0\<rparr>] = None
   \<and> combinedNutrition (map (unitChanged 2 ''cup'') [example_A, example_B]) = None
   \<and> combinedNutrition (map (quantityChanged 3 5) [example_A, example_estimated]) = None"
proof -
  have 1: "hasIncompleteConversions [example_A, example_pending]"
    by (simp add: hasIncompleteConversions_def example_pending_def)
  have 2: "\<exists>ing\<in>set [example_A, example_B\<lparr>weight_g := Some (- 5)\<rparr>].
             weight_g ing = None \<or> (\<exists>w. weight_g ing = Some w \<and> w \<le> 0)"
    by simp
  have 3: "\<exists>ing\<in>set [example_A, example_B\<lparr>weight_g := Some 0\<rparr>].
             weight_g ing = None \<or> (\<exists>w. weight_g ing = Some w \<and> w \<le> 0)"
    by simp
  have 4: "''cup'' \<noteq> ''g'' \<and> (\<exists>ing\<in>set [example_A, example_B]. ing_id ing = 2)"
    by (simp add: example_B_def)
  have a: "combinedNutrition [example_A, example_pending] = None"
    using combinedNutrition_fails_closed [of "[example_A, example_pending]" "''g''" 0 0] 1
    by simp
  have b: "combinedNutrition [example_A, example_B\<lparr>weight_g := Some (- 5)\<rparr>] = None"
    using combinedNutrition_fails_closed
      [of "[example_A, example_B\<lparr>weight_g := Some (- 5)\<rparr>]" "''g''" 0 0] 2
    by simp
  have c: "combinedNutrition [example_A, example_B\<lparr>weight_g := Some 0\<rparr>] = None"
    using combinedNutrition_fails_closed
      [of "[example_A, example_B\<lparr>weight_g := Some 0\<rparr>]" "''g''" 0 0] 3
    by simp
  have d: "combinedNutrition (map (unitChanged 2 ''cup'') [example_A, example_B]) = None"
    using combinedNutrition_fails_closed [of "[example_A, example_B]" "''cup''" 2 0] 4
    by auto
  have 5: "\<exists>ing\<in>set [example_A, example_estimated]. ing_id ing = 3 \<and> unit ing \<noteq> ''g''"
    by (simp add: example_estimated_def example_pending_def)
  have e: "combinedNutrition (map (quantityChanged 3 5) [example_A, example_estimated]) = None"
    using combinedNutrition_fails_closed [of "[example_A, example_estimated]" "''g''" 3 5] 5
    by auto
  from 1 a b c d e show ?thesis by simp
qed

section \<open>Unit conversion\<close>

text \<open>
  Claim C5. \<open>convertIngredient\<close> never raises and always returns a result with a numeric
  gram value; when the lookup \<open>convertIngredientToGrams\<close> throws (the request fails, the body
  is not JSON, or the back end answers without success), the result is the estimate: grams =
  quantity * 100, confidence low, and the note that the conversion failed.
\<close>

theorem convertIngredient_never_raises:
  "(\<exists>r. fst (convertIngredient server ing st) = Inr r)
   \<and> (unit ing \<noteq> ''g''
        \<longrightarrow> isl (convertIngredientToGrams server (description ing) (quantity ing) (unit ing))
        \<longrightarrow> fst (convertIngredient server ing st) =
              Inr \<lparr>grams = quantity ing * 100, result_confidence = Some Low,
                   result_note = Some ''Conversion failed. Using rough estimate.''\<rparr>)"
  by (auto simp: convertIngredient_def Let_def isl_def split: sum.splits option.splits)

theorem convertIngredient_never_raises_example:
  "unit example_pending \<noteq> ''g''
   \<and> convertIngredientToGrams unreachable_server ''mystery powder'' 2 ''cup''
       = Inl (Thrown ''Failed to fetch'')
   \<and> fst (convertIngredient unreachable_server example_pending empty_builder) =
       Inr \<lparr>grams = 200, result_confidence = Some Low,
            result_note = Some ''Conversion failed. Using rough estimate.''\<rparr>
   \<and> convertIngredientToGrams refusing_server ''mystery powder'' 2 ''cup''
       = Inl (Thrown ''Conversion failed'')
   \<and> fst (convertIngredient refusing_server example_pending empty_builder) =
       Inr \<lparr>grams = 200, result_confidence = Some Low,
            result_note = Some ''Conversion failed. Using rough estimate.''\<rparr>"
proof -
  have u: "unit example_pending \<noteq> ''g''"
    by (simp add: example_pending_def)
  have a: "convertIngredientToGrams unreachable_server ''mystery powder'' 2 ''cup''
             = Inl (Thrown ''Failed to fetch'')"
    by (simp add: convertIngredientToGrams_def unreachable_server_def)
  have b: "convertIngredientToGrams refusing_server ''mystery powder'' 2 ''cup''
             = Inl (Thrown ''Conversion failed'')"
    by (simp add: convertIngredientToGrams_def refusing_server_def)
  have d: "description example_pending = ''mystery powder''" "quantity example_pending = 2"
    "unit example_pending = ''cup''"
    by (simp_all add: example_pending_def)
  from convertIngredient_never_raises [of unreachable_server example_pending empty_builder]
    convertIngredient_never_raises [of refusing_server example_pending empty_builder]
    u a b d show ?thesis by simp
qed

text \<open>
  Claim C6. For every ingredient (whatever its name) and quantity, \<open>convertIngredient\<close> with
  unit \<open>g\<close> returns grams = quantity with high confidence and no note, and leaves the
  builder's state as it was: no request is sent. \<open>handleUnitChange\<close> to \<open>g\<close> resolves the
  entries with the given id in the same way, whatever their weight, confidence and note were and
  whatever conversions are in flight, and sends no request either.
\<close>

theorem grams_resolve_directly:
  "(unit ing = ''g'' \<longrightarrow>
      convertIngredient server ing st =
        (Inr \<lparr>grams = quantity ing, result_confidence = Some High, result_note = None\<rparr>, st))
   \<and> handleUnitChange server i ''g'' st =
       st\<lparr>ingredients :=
            map (\<lambda>ing. if ing_id ing = i
                       then ing\<lparr>unit := ''g'', weight_g := Some (quantity ing),
                                confidence := Some High, conversionNote := None\<rparr>
                       else ing)
              (ingredients st)\<rparr>"
proof -
  have "unitChanged i ''g'' =
      (\<lambda>ing. if ing_id ing = i
              then ing\<lparr>unit := ''g'', weight_g := Some (quantity ing),
                       confidence := Some High, conversionNote := None\<rparr>
              else ing)"
    by (rule ext) (simp add: unitChanged_def)
  then show ?thesis
    by (simp add: convertIngredient_def handleUnitChange_def Let_def split: option.split)
qed

theorem grams_resolve_directly_example:
  "unit (example_pending\<lparr>unit := ''g''\<rparr>) = ''g''
   \<and> convertIngredient unreachable_server (example_pending\<lparr>unit := ''g''\<rparr>) pending_builder =
       (Inr \<lparr>grams = 2, result_confidence = Some High, result_note = None\<rparr>, pending_builder)
   \<and> handleUnitChange unreachable_server 3 ''g'' pending_builder =
       pending_builder\<lparr>ingredients :=
         [example_A,
          example_pending\<lparr>unit := ''g'', weight_g := Some 2, confidence := Some High\<rparr>]\<rparr>"
proof -
  have u: "unit (example_pending\<lparr>unit := ''g''\<rparr>) = ''g''"
    by simp
  have q: "quantity (example_pending\<lparr>unit := ''g''\<rparr>) = 2"
    by (simp add: example_pending_def)
  have m: "map (\<lambda>ing. if ing_id ing = 3
                       then ing\<lparr>unit := ''g'', weight_g := Some (quantity ing),
                                confidence := Some High, conversionNote := None\<rparr>
                       else ing)
              (ingredients pending_builder) =
           [example_A,
            example_pending\<lparr>unit := ''g'', weight_g := Some 2, confidence := Some High\<rparr>]"
    by (simp add: pending_builder_def example_A_def example_pending_def)
  from grams_resolve_directly
    [of "example_pending\<lparr>unit := ''g''\<rparr>" unreachable_server pending_builder 3]
    u q m show ?thesis by simp
qed

section \<open>The overall confidence\<close>

lemma set_tiers: "set (tiers ings) = {c. \<exists>ing\<in>set ings. confidence ing = Some c}"
  by (auto simp: tiers_def map_filter_def image_iff) force

lemma hasLow_iff: "hasLowConfidence ings \<longleftrightarrow> Low \<in> set (tiers ings)"
  by (simp add: hasLowConfidence_def list_ex_iff set_tiers)

lemma hasMedium_iff: "hasMediumConfidence ings \<longleftrightarrow> Medium \<in> set (tiers ings)"
  by (simp add: hasMediumConfidence_def list_ex_iff set_tiers)

lemma overall_confidence_eq:
  assumes "\<not> hasIncompleteConversions ings"
  shows "overall_confidence ings =
           (if Low \<in> set (tiers ings) then Low
            else if Medium \<in> set (tiers ings) then Medium else High)"
  using assms
  by (simp add: overall_confidence_def confidence_warning_def hasWarnings_def
      hasLow_iff hasMedium_iff)

text \<open>
  Claim C7. When every ingredient has its gram weight and at least one tier is assigned, the
  tier shown by the warning banner is one of the ingredients' tiers and no ingredient has a
  worse one: it is their minimum. If any ingredient is low it is low; otherwise, if any is
  medium, it is medium.
\<close>

theorem overall_confidence_is_worst:
  assumes "\<not> hasIncompleteConversions ings" and "tiers ings \<noteq> []"
  shows "overall_confidence ings \<in> set (tiers ings)
         \<and> (\<forall>c\<in>set (tiers ings). rank (overall_confidence ings) \<le> rank c)
         \<and> (hasLowConfidence ings \<longrightarrow> overall_confidence ings = Low)
         \<and> (\<not> hasLowConfidence ings \<and> hasMediumConfidence ings
              \<longrightarrow> overall_confidence ings = Medium)"
proof -
  note eq = overall_confidence_eq [OF assms(1)]
  from assms(2) obtain c0 where c0: "c0 \<in> set (tiers ings)"
    by (cases "tiers ings") auto
  have mem: "overall_confidence ings \<in> set (tiers ings)"
  proof (cases "Low \<in> set (tiers ings) \<or> Medium \<in> set (tiers ings)")
    case True
    then show ?thesis by (auto simp: eq)
  next
    case False
    with c0 have "c0 \<noteq> Low" "c0 \<noteq> Medium" by auto
    then have "c0 = High" by (cases c0) auto
    with c0 False show ?thesis by (simp add: eq)
  qed
  have least: "rank (overall_confidence ings) \<le> rank c" if "c \<in> set (tiers ings)" for c
  proof (cases c)
    case Low
    with that show ?thesis by (simp add: eq)
  next
    case Medium
    with that show ?thesis by (simp add: eq)
  next
    case High
    then show ?thesis by (cases "overall_confidence ings") simp_all
  qed
  from mem least show ?thesis
    by (simp add: eq hasLow_iff hasMedium_iff)
qed

theorem overall_confidence_is_worst_example:
  "tiers [example_A, example_approximate, example_estimated] = [High, Medium, Low]
   \<and> overall_confidence [example_A, example_approximate, example_estimated] = Low
   \<and> tiers [example_A, example_approximate] = [High, Medium]
   \<and> overall_confidence [example_A, example_approximate] = Medium"
proof -
  have t: "tiers [example_A, example_approximate, example_estimated] = [High, Medium, Low]"
    "tiers [example_A, example_approximate] = [High, Medium]"
    by (simp_all add: tiers_def map_filter_def example_A_def example_approximate_def
        example_estimated_def example_pending_def)
  have i: "\<not> hasIncompleteConversions [example_A, example_approximate, example_estimated]"
    "\<not> hasIncompleteConversions [example_A, example_approximate]"
    by (simp_all add: hasIncompleteConversions_def example_A_def example_approximate_def
        example_estimated_def example_pending_def)
  have l: "hasLowConfidence [example_A, example_approximate, example_estimated]"
    "\<not> hasLowConfidence [example_A, example_approximate]"
    "hasMediumConfidence [example_A, example_approximate]"
    by (simp_all add: hasLowConfidence_def hasMediumConfidence_def example_A_def
        example_approximate_def example_estimated_def example_pending_def)
  from overall_confidence_is_worst [OF i(1)] overall_confidence_is_worst [OF i(2)] t l
  show ?thesis by simp
qed

section \<open>Yield normalisation with the default yield\<close>

lemma normalize_same:
  assumes "0 < w"
  shows "normalize_profile agg w w = Inr agg"
  using assms by (simp add: normalize_profile_def scale_factor_def case_prod_unfold)

text \<open>
  Claim C8. For every ingredient list with total raw mass > 0, the aggregate exists, the scale
  factor for a yield weight equal to the total raw weight is exactly 1, and normalising the
  aggregate with that yield returns the aggregate. When the result carries no yield weight, the
  review's initial \<open>yieldWeight\<close> is the total raw weight, so normalising with the default
  changes nothing.
\<close>

theorem normalize_default_yield_identity:
  assumes "0 < total_mass ings"
  shows "\<exists>agg. combineIngredients ings = Some agg
           \<and> scale_factor (total_mass ings) (total_mass ings) = 1
           \<and> normalize_profile agg (total_mass ings) (total_mass ings) = Inr agg
           \<and> initial_yieldWeight
                (Some \<lparr>yield_weight_g = None, total_raw_weight_g = Some (total_mass ings)\<rparr>)
               = total_mass ings
           \<and> normalize_profile agg (total_mass ings)
                (initial_yieldWeight
                   (Some \<lparr>yield_weight_g = None, total_raw_weight_g = Some (total_mass ings)\<rparr>))
               = Inr agg"
  using assms
  by (simp add: combineIngredients_eq normalize_same scale_factor_def initial_yieldWeight_def
      truthy_def to_number_def)

theorem normalize_default_yield_identity_example:
  "total_mass [example_A, example_B] = 300
   \<and> initial_yieldWeight (Some \<lparr>yield_weight_g = None, total_raw_weight_g = Some 300\<rparr>) = 300
   \<and> (\<exists>agg. combineIngredients [example_A, example_B] = Some agg
          \<and> normalize_profile agg 300 300 = Inr agg)"
proof -
  have t: "total_mass [example_A, example_B] = 300"
    by (simp add: total_mass_def to_number_def example_A_def example_B_def)
  then have "0 < total_mass [example_A, example_B]" by simp
  from normalize_default_yield_identity [OF this] t show ?thesis
    by auto
qed

section \<open>Validation of the serving configuration\<close>

text \<open>
  Claim C9. \<open>handleSubmit\<close> rejects a serving size or a number of servings per container that
  is not positive: the form's error is set to the validation message, the calculator is not
  called and \<open>onConfirm\<close> is not reached. Every configuration the calculator is called with has
  a positive serving size and a positive number of servings per container.
\<close>

theorem handleSubmit_validates:
  "((servingSizeG st \<le> 0 \<or> servingsPerContainer st \<le> 0) \<longrightarrow>
      error (form (handleSubmit calc n st)) =
        Some (if servingSizeG st \<le> 0 then ''Serving size must be greater than 0''
              else ''Servings per container must be greater than 0'')
      \<and> calculator_calls (handleSubmit calc n st) = []
      \<and> confirmed (handleSubmit calc n st) = None)
   \<and> (\<forall>config\<in>set (calculator_calls (handleSubmit calc n st)).
         0 < serving_size_g config \<and> 0 < servings_per_container config)"
  by (auto simp: handleSubmit_def Let_def split: sum.splits js_exn.splits)

theorem handleSubmit_validates_example:
  "error (form (handleSubmit accepting_calculator Map.empty (default_form\<lparr>servingSizeG := 0\<rparr>)))
     = Some ''Serving size must be greater than 0''
   \<and> calculator_calls
       (handleSubmit accepting_calculator Map.empty (default_form\<lparr>servingSizeG := 0\<rparr>)) = []
   \<and> error (form (handleSubmit accepting_calculator Map.empty
                    (default_form\<lparr>servingsPerContainer := - 1\<rparr>)))
     = Some ''Servings per container must be greater than 0''
   \<and> calculator_calls
       (handleSubmit accepting_calculator Map.empty
          (default_form\<lparr>servingsPerContainer := - 1\<rparr>)) = []
   \<and> calculator_calls (handleSubmit accepting_calculator Map.empty default_form)
     = [\<lparr>serving_size_g = 30, serving_size_description = js_string ''1 serving (30g)'',
         servings_per_container = 1\<rparr>]"
proof -
  have a: "servingSizeG (default_form\<lparr>servingSizeG := 0\<rparr>) \<le> 0"
    by simp
  have b: "servingsPerContainer (default_form\<lparr>servingsPerContainer := - 1\<rparr>) \<le> 0"
    "\<not> servingSizeG (default_form\<lparr>servingsPerContainer := - 1\<rparr>) \<le> 0"
    by (simp_all add: default_form_def)
  have c: "calculator_calls (handleSubmit accepting_calculator Map.empty default_form)
     = [\<lparr>serving_size_g = 30, serving_size_description = js_string ''1 serving (30g)'',
         servings_per_container = 1\<rparr>]"
    by (simp add: handleSubmit_def default_form_def accepting_calculator_def blank_def
        is_white_space_def js_string_def Let_def)
  from handleSubmit_validates
      [of "default_form\<lparr>servingSizeG := 0\<rparr>" accepting_calculator Map.empty]
    handleSubmit_validates
      [of "default_form\<lparr>servingsPerContainer := - 1\<rparr>" accepting_calculator Map.empty]
    a b c show ?thesis by simp
qed

end
